theory Spec2Isabelle
  imports Main
begin

section \<open>Python values used by app.py\<close>

text \<open>
  \<^verbatim>\<open>str.rstrip("/")\<close> removes every trailing occurrence of the character.
\<close>

definition rstrip :: "char \<Rightarrow> string \<Rightarrow> string" where
  "rstrip c s = rev (dropWhile (\<lambda>x. x = c) (rev s))"

text \<open>The decimal text of an integer, as \<^verbatim>\<open>str(n)\<close> and an f-string print it.\<close>

fun digits :: "nat \<Rightarrow> string" where
  "digits n =
     (if n < 10 then [''0123456789'' ! n]
      else digits (n div 10) @ [''0123456789'' ! (n mod 10)])"

declare digits.simps [simp del]

definition str_int :: "int \<Rightarrow> string" where
  "str_int i = (if i < 0 then CHR ''-'' # digits (nat (- i)) else digits (nat i))"

text \<open>
  Exceptions are values. Each carries the text that \<^verbatim>\<open>str(e)\<close> gives. They are
  all subclasses of \<^verbatim>\<open>Exception\<close>, so \<^verbatim>\<open>except Exception\<close> catches each of them.
\<close>

datatype exn =
    ConnectionError string
  | Timeout string
  | HTTPError string
  | JSONDecodeError string
  | AttributeError string
  | StreamlitAPIException string

fun str_exn :: "exn \<Rightarrow> string" where
  "str_exn (ConnectionError m) = m"
| "str_exn (Timeout m) = m"
| "str_exn (HTTPError m) = m"
| "str_exn (JSONDecodeError m) = m"
| "str_exn (AttributeError m) = m"
| "str_exn (StreamlitAPIException m) = m"

section \<open>HTTP responses of the requests library\<close>

text \<open>
  A \<^verbatim>\<open>requests.Response\<close>: the status code, the reason phrase, the URL, and what
  \<^verbatim>\<open>resp.json()\<close> gives, which is the decoded body or the exception raised for a body
  that is not JSON. The decoded body has the type the caller reads it at.
\<close>

record 'a response =
  status_code :: int
  reason :: string
  resp_url :: string
  body_json :: "exn + 'a"

text \<open>
  \<^verbatim>\<open>Response.raise_for_status()\<close> raises \<^verbatim>\<open>HTTPError\<close> for a 4xx or a 5xx status
  and returns for every other status; \<^verbatim>\<open>Response.ok\<close> is true exactly when it does
  not raise.
\<close>

definition raise_for_status :: "'a response \<Rightarrow> exn + unit" where
  "raise_for_status r =
     (if 400 \<le> status_code r \<and> status_code r < 500 then
        Inl (HTTPError (str_int (status_code r) @ '' Client Error: '' @ reason r
                        @ '' for url: '' @ resp_url r))
      else if 500 \<le> status_code r \<and> status_code r < 600 then
        Inl (HTTPError (str_int (status_code r) @ '' Server Error: '' @ reason r
                        @ '' for url: '' @ resp_url r))
      else Inr ())"

definition ok :: "'a response \<Rightarrow> bool" where
  "ok r = (case raise_for_status r of Inl _ \<Rightarrow> False | Inr _ \<Rightarrow> True)"

section \<open>Data of the application\<close>

text \<open>A chat message, the dictionary \<^verbatim>\<open>{"role": ..., "content": ...}\<close>.\<close>

record message =
  role :: string
  content :: string

text \<open>
  The JSON body of a query request; \<open>p_history = None\<close> is the Python \<^verbatim>\<open>None\<close>
  (JSON null). The fields are the keys \<^verbatim>\<open>query\<close>, \<^verbatim>\<open>top_k\<close> and \<^verbatim>\<open>history\<close>.
\<close>

record payload =
  p_query :: string
  p_top_k :: int
  p_history :: "message list option"

text \<open>A request handed to the requests library: URL, JSON body, timeout in seconds.\<close>

datatype request =
    GET string nat
  | POST string payload nat

text \<open>
  A citation as \<^verbatim>\<open>_render_citations\<close> reads it, through \<^verbatim>\<open>c.get\<close> of six keys;
  \<open>None\<close> is a key that is absent or null.
\<close>

record citation =
  rank :: "int option"
  title :: "string option"
  source_url :: "string option"
  source_domain :: "string option"
  date :: "string option"
  snippet :: "string option"

text \<open>
  The decoded body of a query response, read through \<^verbatim>\<open>resp.get\<close> of three keys, at
  the types the rendering functions are annotated with (a list of citation dictionaries,
  a list of strings).
\<close>

record query_response =
  answer :: "string option"
  citations :: "citation list option"
  follow_ups :: "string list option"

text \<open>
  The decoded body of a health response, a dictionary read through \<^verbatim>\<open>health.get\<close> of
  the keys \<^verbatim>\<open>status\<close> and \<^verbatim>\<open>detail\<close>.
\<close>

record health_status =
  status :: "string option"
  detail :: "string option"

section \<open>The environment of one run of the script\<close>

text \<open>
  What the world outside the script answers during one render pass: the environment
  variable, the sidebar widgets, the chat input, the follow-up buttons (by the index
  \<open>i\<close> of their key \<^verbatim>\<open>fu_i\<close>), and the backend behind the two HTTP calls.
\<close>

record env =
  getenv_RAG_BACKEND_URL :: "string option"
  st_text_input :: "string \<Rightarrow> string"
  st_slider :: "int \<Rightarrow> int \<Rightarrow> int \<Rightarrow> int"
  st_chat_input :: "string option"
  st_button :: "nat \<Rightarrow> bool"
  requests_get :: "string \<Rightarrow> exn + health_status response"
  requests_post :: "string \<Rightarrow> payload \<Rightarrow> exn + query_response response"

section \<open>Backend client\<close>

definition DEFAULT_BACKEND_URL :: "env \<Rightarrow> string" where
  "DEFAULT_BACKEND_URL e =
     rstrip CHR ''/'' (case getenv_RAG_BACKEND_URL e of
                         None \<Rightarrow> ''https://rag-pipeline-1gmu.onrender.com''
                       | Some u \<Rightarrow> u)"

text \<open>The body of the \<^verbatim>\<open>try\<close> block of \<^verbatim>\<open>_healthcheck\<close>.\<close>

definition healthcheck_try :: "env \<Rightarrow> string \<Rightarrow> exn + health_status" where
  "healthcheck_try e u =
     (case requests_get e (u @ ''/health'') of
        Inl x \<Rightarrow> Inl x
      | Inr resp \<Rightarrow>
          if ok resp then body_json resp
          else Inr \<lparr>status = Some ''error'',
                    detail = Some (''HTTP '' @ str_int (status_code resp))\<rparr>)"

text \<open>\<^verbatim>\<open>_healthcheck\<close>: the \<^verbatim>\<open>try\<close> block with its \<^verbatim>\<open>except Exception\<close> handler.\<close>

definition healthcheck :: "env \<Rightarrow> string \<Rightarrow> exn + health_status" where
  "healthcheck e u =
     (case healthcheck_try e u of
        Inl x \<Rightarrow> Inr \<lparr>status = Some ''error'', detail = Some (str_exn x)\<rparr>
      | Inr h \<Rightarrow> Inr h)"

text \<open>The payload dictionary built at the start of \<^verbatim>\<open>_post_query\<close>.\<close>

definition post_query_payload :: "string \<Rightarrow> int \<Rightarrow> message list \<Rightarrow> payload" where
  "post_query_payload query_text k hist =
     \<lparr>p_query = query_text,
      p_top_k = k,
      p_history = (if hist \<noteq> [] then Some (drop (length hist - 6) hist) else None)\<rparr>"

text \<open>
  \<^verbatim>\<open>_post_query\<close>: the request it hands to \<^verbatim>\<open>requests.post\<close>, and its outcome, the
  decoded body or the exception that leaves the function.
\<close>

definition post_query ::
  "env \<Rightarrow> string \<Rightarrow> string \<Rightarrow> int \<Rightarrow> message list \<Rightarrow> request \<times> (exn + query_response)" where
  "post_query e u query_text k hist =
     (let pl = post_query_payload query_text k hist
      in (POST (u @ ''/query'') pl 120,
          case requests_post e (u @ ''/query'') pl of
            Inl x \<Rightarrow> Inl x
          | Inr resp \<Rightarrow>
              (case raise_for_status resp of
                 Inl x \<Rightarrow> Inl x
               | Inr _ \<Rightarrow> body_json resp)))"

text \<open>The JSON body of a request, if it has one.\<close>

fun request_payload :: "request \<Rightarrow> payload option" where
  "request_payload (GET _ _) = None"
| "request_payload (POST _ pl _) = Some pl"

section \<open>Session state and rendered output\<close>

text \<open>
  What one pass puts on the page, in order. A \<^verbatim>\<open>with st.chat_message(role)\<close> block
  is the element \<open>ChatMessage role\<close> followed by what is drawn inside it; the
  placeholder of the assistant bubble shows the last \<open>PlaceholderMarkdown\<close> or
  \<open>PlaceholderError\<close> written to it. The page configuration, the style sheet and the
  help texts are presentation only and are left out, and so is the number in the
  elapsed-time caption, which the code takes from a floating-point clock.
\<close>

datatype element =
    SidebarSubheader string
  | SidebarTextInput string string
  | SidebarSuccess string
  | SidebarWarning string
  | SidebarError string
  | SidebarSlider string int int int
  | Title string
  | Caption string
  | ChatMessage string
  | Markdown string
  | Write string
  | Divider
  | Expander string
  | CitationNotes
  | Button string nat nat
  | PlaceholderMarkdown string
  | PlaceholderError string
  | ElapsedCaption
  | ChatInput string

text \<open>The elements written to the placeholder of the assistant bubble.\<close>

fun is_placeholder :: "element \<Rightarrow> bool" where
  "is_placeholder (PlaceholderMarkdown _) = True"
| "is_placeholder (PlaceholderError _) = True"
| "is_placeholder _ = False"

text \<open>
  \<^verbatim>\<open>st.session_state\<close>, one field per key the script uses (\<open>None\<close>: the key is
  absent), together with the two effects of a pass: the elements drawn (\<open>ui\<close>) and the
  HTTP requests issued (\<open>sent\<close>), both in order. Writing a key updates the
  dictionary, except for the key of a widget that the pass has already instantiated:
  Streamlit refuses that write with an exception.
\<close>

record state =
  backend_url :: "string option"
  top_k :: "int option"
  messages :: "message list option"
  pending_input :: "string option"
  chat_input :: "string option"
  ui :: "element list"
  sent :: "request list"

definition new_session :: state where
  "new_session =
     \<lparr>backend_url = None, top_k = None, messages = None, pending_input = None,
      chat_input = None, ui = [], sent = []\<rparr>"

definition emit :: "element list \<Rightarrow> state \<Rightarrow> state" where
  "emit es s = s\<lparr>ui := ui s @ es\<rparr>"

text \<open>Truth value of an optional string: \<^verbatim>\<open>None\<close> and \<^verbatim>\<open>""\<close> are false.\<close>

fun truthy :: "string option \<Rightarrow> bool" where
  "truthy None = False"
| "truthy (Some t) = (t \<noteq> [])"

text \<open>\<^verbatim>\<open>x or d\<close> for an optional string \<open>x\<close>.\<close>

definition py_or :: "string option \<Rightarrow> string \<Rightarrow> string" where
  "py_or x d = (case x of None \<Rightarrow> d | Some t \<Rightarrow> if t \<noteq> [] then t else d)"

text \<open>\<^verbatim>\<open>sep.join(xs)\<close>.\<close>

fun join :: "string \<Rightarrow> string list \<Rightarrow> string" where
  "join sep [] = []"
| "join sep [x] = x"
| "join sep (x # y # ys) = x @ sep @ join sep (y # ys)"

text \<open>The separator of the caption line: a space, the bullet U+2022 in UTF-8, a space.\<close>

definition bullet_sep :: string where
  "bullet_sep = [CHR '' '', CHR 0xE2, CHR 0x80, CHR 0xA2, CHR '' '']"

definition history_of :: "state \<Rightarrow> message list" where
  "history_of s = (case messages s of None \<Rightarrow> [] | Some ms \<Rightarrow> ms)"

section \<open>Helpers of the script\<close>

definition get_backend_url :: "env \<Rightarrow> state \<Rightarrow> string" where
  "get_backend_url e s = rstrip CHR ''/'' (py_or (backend_url s) (DEFAULT_BACKEND_URL e))"

text \<open>The elements of one citation, the body of the loop of \<^verbatim>\<open>_render_citations\<close>.\<close>

definition citation_elements :: "citation \<Rightarrow> element list" where
  "citation_elements c =
     (let rank_text = (case rank c of None \<Rightarrow> ''None'' | Some r \<Rightarrow> str_int r);
          header = ''['' @ rank_text @ ''] '' @ py_or (title c) ''Untitled'';
          meta_bits = map the (filter truthy [source_domain c, date c])
      in [Markdown (''**'' @ header @ ''**'')]
         @ (if meta_bits \<noteq> [] then [Caption (join bullet_sep meta_bits)] else [])
         @ (if truthy (snippet c) then [Write (py_or (snippet c) [])] else [])
         @ (if truthy (source_url c)
            then [Markdown (''[Open source]('' @ py_or (source_url c) [] @ '')'')] else [])
         @ [Divider])"

definition render_citations :: "citation list \<Rightarrow> state \<Rightarrow> state" where
  "render_citations cs s =
     (if cs = [] then s
      else emit ([Expander ''Citations'', CitationNotes] @ concat (map citation_elements cs)) s)"

text \<open>
  The loop of \<^verbatim>\<open>_render_followups\<close> from index \<open>i\<close> on, over \<open>ncols\<close> columns: each
  follow-up is drawn as a button, and a button that reports a click stores its text
  under \<^verbatim>\<open>pending_input\<close>.
\<close>

fun followups_loop :: "env \<Rightarrow> nat \<Rightarrow> nat \<Rightarrow> string list \<Rightarrow> state \<Rightarrow> state" where
  "followups_loop e ncols i [] s = s"
| "followups_loop e ncols i (fu # fus) s =
     (let s1 = emit [Button fu i (i mod ncols)] s;
          s2 = (if st_button e i then s1\<lparr>pending_input := Some fu\<rparr> else s1)
      in followups_loop e ncols (Suc i) fus s2)"

definition render_followups :: "env \<Rightarrow> string list \<Rightarrow> state \<Rightarrow> state" where
  "render_followups e fus s =
     (if fus = [] then s
      else followups_loop e (min 3 (length fus)) 0 fus (emit [Caption ''Try one of these:''] s))"

section \<open>Interaction controller\<close>

text \<open>
  The \<^verbatim>\<open>try\<close> block of \<^verbatim>\<open>_send_and_render\<close>: the state it has reached, and the
  exception that left it, if any. Reading a key of the session state that is absent
  raises \<^verbatim>\<open>AttributeError\<close>.
\<close>

definition send_and_render_try :: "env \<Rightarrow> string \<Rightarrow> state \<Rightarrow> state \<times> exn option" where
  "send_and_render_try e query_text s =
     (case top_k s of
        None \<Rightarrow> (s, Some (AttributeError ''st.session_state has no attribute top_k''))
      | Some k \<Rightarrow>
     (case messages s of
        None \<Rightarrow> (s, Some (AttributeError ''st.session_state has no attribute messages''))
      | Some hist \<Rightarrow>
     (let (req, outcome) = post_query e (get_backend_url e s) query_text k hist;
          s1 = s\<lparr>sent := sent s @ [req]\<rparr>
      in case outcome of
           Inl x \<Rightarrow> (s1, Some x)
         | Inr resp \<Rightarrow>
             (let answer_text = py_or (answer resp) ''No answer returned.'';
                  cs = (case citations resp of None \<Rightarrow> [] | Some c \<Rightarrow> c);
                  fus = (case follow_ups resp of None \<Rightarrow> [] | Some f \<Rightarrow> f);
                  s2 = emit [PlaceholderMarkdown answer_text, ElapsedCaption] s1;
                  s3 = render_citations cs s2;
                  s4 = render_followups e fus s3
              in case messages s4 of
                   None \<Rightarrow>
                     (s4, Some (AttributeError ''st.session_state has no attribute messages''))
                 | Some ms \<Rightarrow>
                     (s4\<lparr>messages :=
                           Some (ms @ [\<lparr>role = ''assistant'', content = answer_text\<rparr>])\<rparr>,
                      None)))))"

text \<open>
  \<^verbatim>\<open>_send_and_render\<close>. The append of the user message is outside the \<^verbatim>\<open>try\<close>
  block, so an absent \<^verbatim>\<open>messages\<close> key leaves the function as an exception; every
  exception of the block is caught and shown in the placeholder.
\<close>

definition send_and_render :: "env \<Rightarrow> string \<Rightarrow> state \<Rightarrow> exn + state" where
  "send_and_render e query_text s =
     (case messages s of
        None \<Rightarrow> Inl (AttributeError ''st.session_state has no attribute messages'')
      | Some ms \<Rightarrow>
          (let s1 = s\<lparr>messages := Some (ms @ [\<lparr>role = ''user'', content = query_text\<rparr>])\<rparr>;
               s2 = emit [ChatMessage ''user'', Markdown query_text, ChatMessage ''assistant''] s1
           in case send_and_render_try e query_text s2 of
                (s3, None) \<Rightarrow> Inr s3
              | (s3, Some x) \<Rightarrow>
                  Inr (emit [PlaceholderError (''Request failed: '' @ str_exn x)] s3)))"

section \<open>The script, top to bottom\<close>

definition sidebar_backend :: "env \<Rightarrow> state \<Rightarrow> state" where
  "sidebar_backend e s =
     (let cur = (case backend_url s of None \<Rightarrow> DEFAULT_BACKEND_URL e | Some u \<Rightarrow> u);
          v = st_text_input e cur
      in emit [SidebarSubheader ''Backend'', SidebarTextInput ''Backend URL'' cur]
           (s\<lparr>backend_url := Some v\<rparr>))"

definition health_badge :: "health_status \<Rightarrow> element" where
  "health_badge h =
     (let st = (case status h of None \<Rightarrow> ''unknown'' | Some t \<Rightarrow> t)
      in if st = ''ok'' then SidebarSuccess ''API healthy''
         else if st = ''missing_keys'' then SidebarWarning (''API reachable '' @ [CHR 0xE2, CHR 0x80, CHR 0x94] @ '' missing keys'')
         else if st = ''error'' then
           SidebarError (if truthy (detail h) then ''API error: '' @ py_or (detail h) []
                         else ''API error'')
         else SidebarWarning ''API status unknown'')"

definition sidebar_health :: "env \<Rightarrow> state \<Rightarrow> exn + state" where
  "sidebar_health e s =
     (let u = get_backend_url e s;
          s1 = s\<lparr>sent := sent s @ [GET (u @ ''/health'') 5]\<rparr>
      in case healthcheck e u of
           Inl x \<Rightarrow> Inl x
         | Inr h \<Rightarrow> Inr (emit [health_badge h] s1))"

definition sidebar_options :: "env \<Rightarrow> state \<Rightarrow> state" where
  "sidebar_options e s =
     (let cur = (case top_k s of None \<Rightarrow> 5 | Some k \<Rightarrow> k)
      in emit [Expander ''Options'', SidebarSlider ''Top K'' 1 20 cur]
           (s\<lparr>top_k := Some (st_slider e 1 20 cur)\<rparr>))"

definition chat_history :: "state \<Rightarrow> state" where
  "chat_history s =
     (let ms = history_of s;
          s1 = s\<lparr>messages := Some ms\<rparr>
      in emit ([Title ''Software Finder Demo'',
                Caption ''Ask questions about your ingested reviews. Clean, minimal, and fast.'']
               @ concat (map (\<lambda>m. [ChatMessage (role m), Markdown (content m)]) ms)) s1)"

text \<open>
  The input section: the pending follow-up is popped and the chat input is read. When a
  text was popped and nothing was typed, the script writes the popped text to the key
  \<^verbatim>\<open>chat_input\<close> of the session state. That key belongs to the chat input widget
  instantiated on the line before, so the write raises \<^verbatim>\<open>StreamlitAPIException\<close>
  and the run of the script ends there, before the popped text is assigned to
  \<^verbatim>\<open>user_input\<close>. The result is the state, and the exception or the value of
  \<^verbatim>\<open>user_input\<close>.
\<close>

definition take_input :: "env \<Rightarrow> state \<Rightarrow> state \<times> (exn + string option)" where
  "take_input e s =
     (let prompt_prefill = (case pending_input s of None \<Rightarrow> [] | Some p \<Rightarrow> p);
          s1 = emit [ChatInput ''Ask a question''] (s\<lparr>pending_input := None\<rparr>);
          user_input = st_chat_input e
      in if prompt_prefill \<noteq> [] \<and> \<not> truthy user_input
         then (s1, Inl (StreamlitAPIException
                 ''st.session_state.chat_input cannot be modified after the widget with key chat_input is instantiated.''))
         else (s1, Inr user_input))"

definition dispatch :: "env \<Rightarrow> string option \<Rightarrow> state \<Rightarrow> exn + state" where
  "dispatch e user_input s =
     (case user_input of
        None \<Rightarrow> Inr s
      | Some t \<Rightarrow> if t \<noteq> [] then send_and_render e t s else Inr s)"

text \<open>
  One run of the script on the session state left by the run before: the state it
  leaves, and the exception that ended it early, if any. What was written to the session
  state before an exception stays written.
\<close>

definition render_pass :: "env \<Rightarrow> state \<Rightarrow> state \<times> exn option" where
  "render_pass e s0 =
     (let s = sidebar_backend e (s0\<lparr>ui := [], sent := []\<rparr>)
      in case sidebar_health e s of
           Inl x \<Rightarrow> (s, Some x)
         | Inr s1 \<Rightarrow>
             (case take_input e (chat_history (sidebar_options e s1)) of
                (s2, Inl x) \<Rightarrow> (s2, Some x)
              | (s2, Inr user_input) \<Rightarrow>
                  (case dispatch e user_input s2 of
                     Inl x \<Rightarrow> (s2, Some x)
                   | Inr s3 \<Rightarrow> (s3, None))))"

text \<open>
  A session: one pass after the other, each on the state the last one left, whether it
  ended with an exception or not.
\<close>

fun run :: "env list \<Rightarrow> state \<Rightarrow> state" where
  "run [] s = s"
| "run (e # es) s = run es (fst (render_pass e s))"

text \<open>The requests issued during a session, pass after pass.\<close>

fun session_requests :: "env list \<Rightarrow> state \<Rightarrow> request list" where
  "session_requests [] s = []"
| "session_requests (e # es) s =
     sent (fst (render_pass e s)) @ session_requests es (fst (render_pass e s))"

section \<open>A concrete backend and a concrete user\<close>

text \<open>
  An environment for the examples below: no environment variable, widgets that return
  the value they are given (the user leaves them alone), the question
  \<^verbatim>\<open>What is product X?\<close> typed into the chat input, no button clicked, and a backend
  that answers both calls with status 200.
\<close>

definition example_response :: query_response where
  "example_response =
     \<lparr>answer = Some ''X is a tool.'',
      citations = Some [\<lparr>rank = Some 1, title = Some ''Doc A'', source_url = Some ''http://a'',
                         source_domain = None, date = None, snippet = Some ''X is great''\<rparr>],
      follow_ups = Some [''How much does X cost?'']\<rparr>"

definition example_env :: env where
  "example_env =
     \<lparr>getenv_RAG_BACKEND_URL = None,
      st_text_input = (\<lambda>v. v),
      st_slider = (\<lambda>lo hi v. v),
      st_chat_input = Some ''What is product X?'',
      st_button = (\<lambda>i. False),
      requests_get = (\<lambda>u. Inr \<lparr>status_code = 200, reason = ''OK'', resp_url = u,
                                body_json = Inr \<lparr>status = Some ''ok'', detail = None\<rparr>\<rparr>),
      requests_post = (\<lambda>u pl. Inr \<lparr>status_code = 200, reason = ''OK'', resp_url = u,
                                    body_json = Inr example_response\<rparr>)\<rparr>"

section \<open>Properties of the helpers\<close>

lemma ok_iff: "ok r \<longleftrightarrow> \<not> (400 \<le> status_code r \<and> status_code r < 600)"
  by (auto simp: ok_def raise_for_status_def)

lemma emit_fields [simp]:
  "backend_url (emit es s) = backend_url s"
  "top_k (emit es s) = top_k s"
  "messages (emit es s) = messages s"
  "pending_input (emit es s) = pending_input s"
  "chat_input (emit es s) = chat_input s"
  "sent (emit es s) = sent s"
  "ui (emit es s) = ui s @ es"
  by (simp_all add: emit_def)

lemma get_backend_url_cong:
  "backend_url s = backend_url s' \<Longrightarrow> get_backend_url e s = get_backend_url e s'"
  by (simp add: get_backend_url_def)

lemma citation_elements_no_placeholder:
  "filter is_placeholder (citation_elements c) = []"
  by (simp add: citation_elements_def Let_def)

lemma render_citations_fields [simp]:
  "backend_url (render_citations cs s) = backend_url s"
  "top_k (render_citations cs s) = top_k s"
  "messages (render_citations cs s) = messages s"
  "pending_input (render_citations cs s) = pending_input s"
  "chat_input (render_citations cs s) = chat_input s"
  "sent (render_citations cs s) = sent s"
  by (simp_all add: render_citations_def)

lemma render_citations_placeholder [simp]:
  "filter is_placeholder (ui (render_citations cs s)) = filter is_placeholder (ui s)"
  by (simp add: render_citations_def filter_concat o_def citation_elements_no_placeholder)

lemma followups_loop_fields [simp]:
  "backend_url (followups_loop e n i fus s) = backend_url s"
  "top_k (followups_loop e n i fus s) = top_k s"
  "messages (followups_loop e n i fus s) = messages s"
  "chat_input (followups_loop e n i fus s) = chat_input s"
  "sent (followups_loop e n i fus s) = sent s"
  "filter is_placeholder (ui (followups_loop e n i fus s)) = filter is_placeholder (ui s)"
  by (induction fus arbitrary: i s; simp add: Let_def)+

lemma render_followups_fields [simp]:
  "backend_url (render_followups e fus s) = backend_url s"
  "top_k (render_followups e fus s) = top_k s"
  "messages (render_followups e fus s) = messages s"
  "chat_input (render_followups e fus s) = chat_input s"
  "sent (render_followups e fus s) = sent s"
  "filter is_placeholder (ui (render_followups e fus s)) = filter is_placeholder (ui s)"
  by (simp_all add: render_followups_def)

lemma followups_loop_none_clicked:
  "\<forall>j<length fus. \<not> st_button e (i + j) \<Longrightarrow>
     pending_input (followups_loop e n i fus s) = pending_input s"
proof (induction fus arbitrary: i s)
  case Nil
  then show ?case by simp
next
  case (Cons fu fus)
  have "\<not> st_button e i" using Cons.prems by force
  moreover have "\<forall>j<length fus. \<not> st_button e (Suc i + j)"
    using Cons.prems by fastforce
  ultimately show ?case using Cons.IH [of "Suc i"] by (simp add: Let_def)
qed


text \<open>What an exchange does, by the outcome of the backend call.\<close>

lemma send_and_render_failed:
  assumes "messages s = Some ms" and "top_k s = Some k"
    and "snd (post_query e (get_backend_url e s) q k (ms @ [\<lparr>role = ''user'', content = q\<rparr>])) = Inl x"
  shows "send_and_render e q s =
           Inr (s\<lparr>messages := Some (ms @ [\<lparr>role = ''user'', content = q\<rparr>]),
                  ui := ui s @ [ChatMessage ''user'', Markdown q, ChatMessage ''assistant'',
                                PlaceholderError (''Request failed: '' @ str_exn x)],
                  sent := sent s @ [fst (post_query e (get_backend_url e s) q k
                                          (ms @ [\<lparr>role = ''user'', content = q\<rparr>]))]\<rparr>)"
proof -
  let ?s1 = "s\<lparr>messages := Some (ms @ [\<lparr>role = ''user'', content = q\<rparr>])\<rparr>"
  let ?s2 = "emit [ChatMessage ''user'', Markdown q, ChatMessage ''assistant''] ?s1"
  have u: "get_backend_url e ?s2 = get_backend_url e s"
    by (rule get_backend_url_cong) simp
  obtain req where pq: "post_query e (get_backend_url e s) q k (ms @ [\<lparr>role = ''user'', content = q\<rparr>]) = (req, Inl x)"
    using assms(3) by (cases "post_query e (get_backend_url e s) q k (ms @ [\<lparr>role = ''user'', content = q\<rparr>])") simp
  have "send_and_render_try e q ?s2 = (?s2\<lparr>sent := sent ?s2 @ [req]\<rparr>, Some x)"
    using assms(2) pq by (simp add: send_and_render_try_def u)
  then show ?thesis using assms(1) pq
    by (simp add: send_and_render_def Let_def emit_def)
qed

lemma send_and_render_answered:
  assumes "messages s = Some ms" and "top_k s = Some k"
    and "snd (post_query e (get_backend_url e s) q k (ms @ [\<lparr>role = ''user'', content = q\<rparr>])) = Inr resp"
  shows "\<exists>s'. send_and_render e q s = Inr s' \<and>
           messages s' = Some (ms @ [\<lparr>role = ''user'', content = q\<rparr>,
                                     \<lparr>role = ''assistant'',
                                      content = py_or (answer resp) ''No answer returned.''\<rparr>]) \<and>
           filter is_placeholder (ui s') = filter is_placeholder (ui s)
              @ [PlaceholderMarkdown (py_or (answer resp) ''No answer returned.'')] \<and>
           sent s' = sent s @ [fst (post_query e (get_backend_url e s) q k
                                     (ms @ [\<lparr>role = ''user'', content = q\<rparr>]))] \<and>
           top_k s' = top_k s \<and> backend_url s' = backend_url s \<and> chat_input s' = chat_input s"
proof -
  let ?s1 = "s\<lparr>messages := Some (ms @ [\<lparr>role = ''user'', content = q\<rparr>])\<rparr>"
  let ?s2 = "emit [ChatMessage ''user'', Markdown q, ChatMessage ''assistant''] ?s1"
  have u: "get_backend_url e ?s2 = get_backend_url e s"
    by (rule get_backend_url_cong) simp
  obtain req where pq: "post_query e (get_backend_url e s) q k (ms @ [\<lparr>role = ''user'', content = q\<rparr>]) = (req, Inr resp)"
    using assms(3) by (cases "post_query e (get_backend_url e s) q k (ms @ [\<lparr>role = ''user'', content = q\<rparr>])") simp
  obtain s3 r where t: "send_and_render_try e q ?s2 = (s3, r)" by force
  have "r = None \<and> messages s3 = Some (ms @ [\<lparr>role = ''user'', content = q\<rparr>,
                                     \<lparr>role = ''assistant'',
                                      content = py_or (answer resp) ''No answer returned.''\<rparr>]) \<and>
           filter is_placeholder (ui s3) = filter is_placeholder (ui s)
              @ [PlaceholderMarkdown (py_or (answer resp) ''No answer returned.'')] \<and>
           sent s3 = sent s @ [req] \<and>
           top_k s3 = top_k s \<and> backend_url s3 = backend_url s \<and> chat_input s3 = chat_input s"
    using t assms(2) pq by (auto simp add: send_and_render_try_def u Let_def)
  then show ?thesis using assms(1) pq t
    by (simp add: send_and_render_def Let_def)
qed


lemma py_or_nonempty: "d \<noteq> [] \<Longrightarrow> py_or x d \<noteq> []"
  by (simp add: py_or_def split: option.splits)

lemma py_or_fallback: "\<not> truthy x \<Longrightarrow> py_or x d = d"
  by (cases x) (simp_all add: py_or_def)

lemma fst_post_query:
  "fst (post_query e u q k hist) = POST (u @ ''/query'') (post_query_payload q k hist) 120"
  by (simp add: post_query_def Let_def)

lemma healthcheck_returns: "\<exists>h. healthcheck e u = Inr h"
  by (simp add: healthcheck_def split: sum.splits)

lemma healthcheck_not_Inl [simp]: "healthcheck e u \<noteq> Inl x"
  by (simp add: healthcheck_def split: sum.splits)

lemma send_and_render_shape:
  assumes "messages s = Some ms" and "top_k s = Some k"
  shows "\<exists>s' rest. send_and_render e q s = Inr s' \<and>
           messages s' = Some (ms @ \<lparr>role = ''user'', content = q\<rparr> # rest) \<and>
           (rest = [] \<or> (\<exists>a. a \<noteq> [] \<and> rest = [\<lparr>role = ''assistant'', content = a\<rparr>])) \<and>
           sent s' = sent s @ [POST (get_backend_url e s @ ''/query'')
                                 (post_query_payload q k (ms @ [\<lparr>role = ''user'', content = q\<rparr>])) 120] \<and>
           top_k s' = top_k s"
proof (cases "snd (post_query e (get_backend_url e s) q k (ms @ [\<lparr>role = ''user'', content = q\<rparr>]))")
  case (Inl x)
  show ?thesis
    using send_and_render_failed [OF assms Inl] assms(2) by (simp add: fst_post_query)
next
  case (Inr resp)
  have "py_or (answer resp) ''No answer returned.'' \<noteq> []"
    by (rule py_or_nonempty) simp
  then show ?thesis
    using send_and_render_answered [OF assms Inr] by (auto simp: fst_post_query)
qed

text \<open>The state in which a pass reaches the end of its input section, and how it ends.\<close>

lemma render_pass_shape:
  "\<exists>s2. messages s2 = Some (history_of s0) \<and>
        top_k s2 = Some (st_slider e 1 20 (case top_k s0 of None \<Rightarrow> 5 | Some k \<Rightarrow> k)) \<and>
        pending_input s2 = None \<and>
        sent s2 = [GET (get_backend_url e s2 @ ''/health'') 5] \<and>
        (if truthy (pending_input s0) \<and> \<not> truthy (st_chat_input e)
         then \<exists>x. render_pass e s0 = (s2, Some x)
         else render_pass e s0 =
                (case dispatch e (st_chat_input e) s2 of
                   Inl x \<Rightarrow> (s2, Some x)
                 | Inr s3 \<Rightarrow> (s3, None)))"
proof -
  let ?sb = "sidebar_backend e (s0\<lparr>ui := [], sent := []\<rparr>)"
  obtain h where h: "healthcheck e (get_backend_url e ?sb) = Inr h"
    using healthcheck_returns by blast
  let ?s1 = "emit [health_badge h]
               (?sb\<lparr>sent := sent ?sb @ [GET (get_backend_url e ?sb @ ''/health'') 5]\<rparr>)"
  let ?s = "chat_history (sidebar_options e ?s1)"
  define s2 where "s2 = fst (take_input e ?s)"
  have sh: "sidebar_health e ?sb = Inr ?s1"
    using h by (simp add: sidebar_health_def Let_def)
  have pend: "pending_input ?s = pending_input s0"
    by (simp add: chat_history_def sidebar_options_def sidebar_backend_def Let_def emit_def)
  have raised: "\<exists>x. snd (take_input e ?s) = Inl x"
    if "truthy (pending_input s0) \<and> \<not> truthy (st_chat_input e)"
    using that pend by (cases "pending_input s0") (simp_all add: take_input_def Let_def)
  have read: "snd (take_input e ?s) = Inr (st_chat_input e)"
    if "\<not> (truthy (pending_input s0) \<and> \<not> truthy (st_chat_input e))"
    using that pend by (cases "pending_input s0") (auto simp add: take_input_def Let_def)
  have rp: "render_pass e s0 =
              (case snd (take_input e ?s) of
                 Inl x \<Rightarrow> (s2, Some x)
               | Inr user_input \<Rightarrow>
                   (case dispatch e user_input s2 of
                      Inl x \<Rightarrow> (s2, Some x)
                    | Inr s3 \<Rightarrow> (s3, None)))"
    unfolding s2_def
    by (cases "take_input e ?s") (simp add: render_pass_def Let_def sh split: sum.splits)
  have props: "messages s2 = Some (history_of s0) \<and>
        top_k s2 = Some (st_slider e 1 20 (case top_k s0 of None \<Rightarrow> 5 | Some k \<Rightarrow> k)) \<and>
        pending_input s2 = None \<and>
        sent s2 = [GET (get_backend_url e s2 @ ''/health'') 5]"
    unfolding s2_def
    by (simp add: take_input_def chat_history_def sidebar_options_def sidebar_backend_def
          Let_def emit_def history_of_def get_backend_url_def)
  show ?thesis
  proof (cases "truthy (pending_input s0) \<and> \<not> truthy (st_chat_input e)")
    case True
    then obtain x where "snd (take_input e ?s) = Inl x" using raised by blast
    then have "render_pass e s0 = (s2, Some x)" using rp by simp
    then show ?thesis using props True by (intro exI [of _ s2]) auto
  next
    case False
    then have "render_pass e s0 =
                 (case dispatch e (st_chat_input e) s2 of
                    Inl x \<Rightarrow> (s2, Some x)
                  | Inr s3 \<Rightarrow> (s3, None))"
      using rp read by simp
    then show ?thesis using props False by (intro exI [of _ s2]) auto
  qed
qed

text \<open>What a pass leaves behind, however it ends.\<close>

lemma render_pass_outcome:
  "\<exists>s' x new.
     render_pass e s = (s', x) \<and>
     messages s' = Some (history_of s @ new) \<and>
     (\<forall>m\<in>set new. content m \<noteq> [] \<and> (role m = ''user'' \<or> role m = ''assistant'')) \<and>
     top_k s' = Some (st_slider e 1 20 (case top_k s of None \<Rightarrow> 5 | Some k \<Rightarrow> k)) \<and>
     (\<forall>u pl t. POST u pl t \<in> set (sent s') \<longrightarrow>
        p_top_k pl = st_slider e 1 20 (case top_k s of None \<Rightarrow> 5 | Some k \<Rightarrow> k)) \<and>
     (\<not> truthy (st_chat_input e) \<longrightarrow> new = [] \<and> (\<forall>u pl t. POST u pl t \<notin> set (sent s')))"
proof -
  let ?k = "st_slider e 1 20 (case top_k s of None \<Rightarrow> 5 | Some k \<Rightarrow> k)"
  obtain s2 where m: "messages s2 = Some (history_of s)"
    and k: "top_k s2 = Some ?k"
    and sn: "sent s2 = [GET (get_backend_url e s2 @ ''/health'') 5]"
    and p: "if truthy (pending_input s) \<and> \<not> truthy (st_chat_input e)
            then \<exists>x. render_pass e s = (s2, Some x)
            else render_pass e s =
                   (case dispatch e (st_chat_input e) s2 of
                      Inl x \<Rightarrow> (s2, Some x)
                    | Inr s3 \<Rightarrow> (s3, None))"
    using render_pass_shape [of s e] by blast
  show ?thesis
  proof (cases "truthy (st_chat_input e)")
    case True
    then obtain q where q: "st_chat_input e = Some q" "q \<noteq> []"
      by (cases "st_chat_input e") auto
    obtain s' rest where r: "send_and_render e q s2 = Inr s'"
       "messages s' = Some (history_of s @ \<lparr>role = ''user'', content = q\<rparr> # rest)"
       "rest = [] \<or> (\<exists>a. a \<noteq> [] \<and> rest = [\<lparr>role = ''assistant'', content = a\<rparr>])"
       "sent s' = sent s2 @ [POST (get_backend_url e s2 @ ''/query'')
                               (post_query_payload q ?k (history_of s @ [\<lparr>role = ''user'', content = q\<rparr>]))
                               120]"
       "top_k s' = top_k s2"
      using send_and_render_shape [OF m k, of e q] by blast
    have "render_pass e s = (s', None)"
      using p True q r(1) by (simp add: dispatch_def)
    moreover have "\<forall>m\<in>set (\<lparr>role = ''user'', content = q\<rparr> # rest).
                     content m \<noteq> [] \<and> (role m = ''user'' \<or> role m = ''assistant'')"
      using r(3) q(2) by auto
    moreover have "\<forall>u pl t. POST u pl t \<in> set (sent s') \<longrightarrow> p_top_k pl = ?k"
      using r(4) sn by (auto simp: post_query_payload_def)
    ultimately show ?thesis using r(2,5) k True by auto
  next
    case False
    have "\<exists>x. render_pass e s = (s2, x)"
    proof (cases "truthy (pending_input s)")
      case True
      then show ?thesis using p False by auto
    next
      case np: False
      then show ?thesis using p False
        by (cases "st_chat_input e") (auto simp: dispatch_def)
    qed
    then obtain x where "render_pass e s = (s2, x)" by blast
    moreover have "\<forall>u pl t. POST u pl t \<notin> set (sent s2)" using sn by simp
    ultimately show ?thesis using m k by auto
  qed
qed

lemma render_pass_messages:
  assumes "render_pass e s = (s', x)"
  shows "\<exists>new. messages s' = Some (history_of s @ new) \<and>
           (\<forall>m\<in>set new. content m \<noteq> [] \<and> (role m = ''user'' \<or> role m = ''assistant''))"
  using render_pass_outcome [of e s] assms by auto

lemma render_pass_top_k:
  assumes "render_pass e s = (s', x)"
  shows "top_k s' = Some (st_slider e 1 20 (case top_k s of None \<Rightarrow> 5 | Some k \<Rightarrow> k))"
  using render_pass_outcome [of e s] assms by auto

lemma render_pass_sent:
  assumes "render_pass e s = (s', x)" and "POST u pl t \<in> set (sent s')"
  shows "p_top_k pl = st_slider e 1 20 (case top_k s of None \<Rightarrow> 5 | Some k \<Rightarrow> k)"
  using render_pass_outcome [of e s] assms by auto


lemma render_pass_pending_ignored:
  assumes "st_chat_input e = Some t" and "t \<noteq> []"
  shows "render_pass e (s\<lparr>pending_input := Some p\<rparr>) = render_pass e (s\<lparr>pending_input := None\<rparr>)"
proof -
  have "sidebar_backend e (s\<lparr>pending_input := Some p, ui := [], sent := []\<rparr>)
          = (sidebar_backend e (s\<lparr>pending_input := None, ui := [], sent := []\<rparr>))
              \<lparr>pending_input := Some p\<rparr>"
    by (simp add: sidebar_backend_def Let_def emit_def)
  then show ?thesis
    using assms
    by (simp add: render_pass_def sidebar_health_def sidebar_options_def
          chat_history_def take_input_def Let_def emit_def history_of_def get_backend_url_def
          split: sum.splits)
qed

lemma render_followups_none_clicked:
  "\<forall>i. \<not> st_button e i \<Longrightarrow> pending_input (render_followups e fus s) = pending_input s"
  by (simp add: render_followups_def followups_loop_none_clicked)

lemma send_and_render_pending:
  assumes "\<forall>i. \<not> st_button e i" and "send_and_render e q s = Inr s'"
  shows "pending_input s' = pending_input s"
  using assms(2) render_followups_none_clicked [OF assms(1)]
  by (auto simp: send_and_render_def send_and_render_try_def Let_def
           split: option.splits sum.splits prod.splits)

lemma run_messages:
  "\<forall>m\<in>set (history_of s). content m \<noteq> [] \<and> (role m = ''user'' \<or> role m = ''assistant'') \<Longrightarrow>
   \<forall>m\<in>set (history_of (run es s)).
      content m \<noteq> [] \<and> (role m = ''user'' \<or> role m = ''assistant'')"
proof (induction es arbitrary: s)
  case Nil
  then show ?case by simp
next
  case (Cons e es)
  obtain s1 x where s1: "render_pass e s = (s1, x)" by force
  obtain new where "messages s1 = Some (history_of s @ new)"
    and "\<forall>m\<in>set new. content m \<noteq> [] \<and> (role m = ''user'' \<or> role m = ''assistant'')"
    using render_pass_messages [OF s1] by blast
  then have "\<forall>m\<in>set (history_of s1).
               content m \<noteq> [] \<and> (role m = ''user'' \<or> role m = ''assistant'')"
    using Cons.prems by (auto simp: history_of_def)
  then show ?case using Cons.IH [of s1] s1 by simp
qed


text \<open>
  A stored \<^verbatim>\<open>top_k\<close> within 1 and 20 stays there, and so does every \<^verbatim>\<open>top_k\<close> sent,
  as long as the slider returns the value it is given or a position within its bounds.
\<close>

lemma session_requests_top_k:
  assumes "\<forall>e\<in>set es. \<forall>v. st_slider e 1 20 v = v \<or> (1 \<le> st_slider e 1 20 v \<and> st_slider e 1 20 v \<le> 20)"
    and "case top_k s of None \<Rightarrow> True | Some k \<Rightarrow> 1 \<le> k \<and> k \<le> 20"
  shows "\<forall>u pl t. POST u pl t \<in> set (session_requests es s) \<longrightarrow> 1 \<le> p_top_k pl \<and> p_top_k pl \<le> 20"
  using assms
proof (induction es arbitrary: s)
  case Nil
  then show ?case by simp
next
  case (Cons e es)
  let ?cur = "case top_k s of None \<Rightarrow> 5 | Some k \<Rightarrow> k"
  let ?k = "st_slider e 1 20 ?cur"
  obtain s1 x where s1: "render_pass e s = (s1, x)" by force
  have cur: "1 \<le> ?cur \<and> ?cur \<le> 20"
    using Cons.prems(2) by (cases "top_k s") auto
  have "?k = ?cur \<or> (1 \<le> ?k \<and> ?k \<le> 20)"
    using Cons.prems(1) by simp
  then have k: "1 \<le> ?k \<and> ?k \<le> 20" using cur by auto
  have "top_k s1 = Some ?k" using render_pass_top_k [OF s1] .
  then have "case top_k s1 of None \<Rightarrow> True | Some k \<Rightarrow> 1 \<le> k \<and> k \<le> 20"
    using k by simp
  then have rest: "\<forall>u pl t. POST u pl t \<in> set (session_requests es s1) \<longrightarrow>
                     1 \<le> p_top_k pl \<and> p_top_k pl \<le> 20"
    using Cons.IH [of s1] Cons.prems(1) by simp
  have "\<forall>u pl t. POST u pl t \<in> set (sent s1) \<longrightarrow> 1 \<le> p_top_k pl \<and> p_top_k pl \<le> 20"
    using render_pass_sent [OF s1] k by metis
  then show ?case using rest s1 by (simp del: ex_simps all_simps)
qed

text \<open>A pass with a non-empty typed text submits exactly that text.\<close>

lemma render_pass_submits:
  assumes "st_chat_input e = Some t" and "t \<noteq> []"
  shows "\<exists>s' rest u k. render_pass e s = (s', None) \<and>
           messages s' = Some (history_of s @ \<lparr>role = ''user'', content = t\<rparr> # rest) \<and>
           sent s' = [GET (u @ ''/health'') 5,
                      POST (u @ ''/query'')
                        (post_query_payload t k (history_of s @ [\<lparr>role = ''user'', content = t\<rparr>]))
                        120] \<and>
           ((\<forall>i. \<not> st_button e i) \<longrightarrow> pending_input s' = None)"
proof -
  obtain s2 where m: "messages s2 = Some (history_of s)"
    and k: "\<exists>k. top_k s2 = Some k"
    and pn: "pending_input s2 = None"
    and sn: "sent s2 = [GET (get_backend_url e s2 @ ''/health'') 5]"
    and p: "render_pass e s =
              (case dispatch e (Some t) s2 of Inl x \<Rightarrow> (s2, Some x) | Inr s3 \<Rightarrow> (s3, None))"
    using render_pass_shape [of s e] assms by auto
  from k obtain k where k: "top_k s2 = Some k" by blast
  obtain s' rest where r: "send_and_render e t s2 = Inr s'"
     "messages s' = Some (history_of s @ \<lparr>role = ''user'', content = t\<rparr> # rest)"
     "sent s' = sent s2 @ [POST (get_backend_url e s2 @ ''/query'')
                             (post_query_payload t k (history_of s @ [\<lparr>role = ''user'', content = t\<rparr>]))
                             120]"
    using send_and_render_shape [OF m k, of e t] by blast
  have "render_pass e s = (s', None)"
    using p r(1) assms(2) by (simp add: dispatch_def)
  moreover have "(\<forall>i. \<not> st_button e i) \<longrightarrow> pending_input s' = None"
    using send_and_render_pending [of e t s2 s'] r(1) pn by simp
  ultimately show ?thesis using r(2,3) sn
    by (intro exI [of _ s'] exI [of _ rest] exI [of _ "get_backend_url e s2"] exI [of _ k]) simp
qed

text \<open>The definitions that evaluate a pass on a concrete environment.\<close>

lemmas pass_defs =
  render_pass_def sidebar_health_def sidebar_backend_def sidebar_options_def chat_history_def
  take_input_def dispatch_def send_and_render_def send_and_render_try_def post_query_def
  post_query_payload_def healthcheck_def healthcheck_try_def ok_def raise_for_status_def
  emit_def history_of_def get_backend_url_def DEFAULT_BACKEND_URL_def py_or_def rstrip_def
  render_citations_def render_followups_def citation_elements_def example_env_def
  example_response_def new_session_def str_int_def digits.simps Let_def

section \<open>The query payload\<close>

text \<open>
  C1. For every call of \<^verbatim>\<open>_post_query\<close> with a history of more than 6 messages, the
  \<^verbatim>\<open>history\<close> field of the request payload is exactly the last 6 messages of that
  history, in their original order: the history is some older messages followed by the
  6 that are sent.
\<close>

theorem post_query_history_last_six:
  assumes "6 < length hist"
  shows "\<exists>pl older recent.
           fst (post_query e u query_text k hist) = POST (u @ ''/query'') pl 120 \<and>
           p_history pl = Some recent \<and> hist = older @ recent \<and> length recent = 6"
proof -
  let ?recent = "drop (length hist - 6) hist"
  have "hist \<noteq> []" using assms by auto
  then have "p_history (post_query_payload query_text k hist) = Some ?recent"
    by (simp add: post_query_payload_def)
  moreover have "hist = take (length hist - 6) hist @ ?recent" by simp
  moreover have "length ?recent = 6" using assms by simp
  moreover have "fst (post_query e u query_text k hist)
                   = POST (u @ ''/query'') (post_query_payload query_text k hist) 120"
    by (rule fst_post_query)
  ultimately show ?thesis by blast
qed

theorem post_query_history_last_six_witness:
  "6 < length [\<lparr>role = ''user'', content = ''q1''\<rparr>, \<lparr>role = ''assistant'', content = ''a1''\<rparr>,
               \<lparr>role = ''user'', content = ''q2''\<rparr>, \<lparr>role = ''assistant'', content = ''a2''\<rparr>,
               \<lparr>role = ''user'', content = ''q3''\<rparr>, \<lparr>role = ''assistant'', content = ''a3''\<rparr>,
               \<lparr>role = ''user'', content = ''q4''\<rparr>] \<and>
   (\<exists>pl. fst (post_query example_env ''http://b'' ''q4'' 5
              [\<lparr>role = ''user'', content = ''q1''\<rparr>, \<lparr>role = ''assistant'', content = ''a1''\<rparr>,
               \<lparr>role = ''user'', content = ''q2''\<rparr>, \<lparr>role = ''assistant'', content = ''a2''\<rparr>,
               \<lparr>role = ''user'', content = ''q3''\<rparr>, \<lparr>role = ''assistant'', content = ''a3''\<rparr>,
               \<lparr>role = ''user'', content = ''q4''\<rparr>]) = POST ''http://b/query'' pl 120 \<and>
     p_history pl =
       Some [\<lparr>role = ''assistant'', content = ''a1''\<rparr>,
             \<lparr>role = ''user'', content = ''q2''\<rparr>, \<lparr>role = ''assistant'', content = ''a2''\<rparr>,
             \<lparr>role = ''user'', content = ''q3''\<rparr>, \<lparr>role = ''assistant'', content = ''a3''\<rparr>,
             \<lparr>role = ''user'', content = ''q4''\<rparr>])"
  using post_query_history_last_six
    [of "[\<lparr>role = ''user'', content = ''q1''\<rparr>, \<lparr>role = ''assistant'', content = ''a1''\<rparr>,
          \<lparr>role = ''user'', content = ''q2''\<rparr>, \<lparr>role = ''assistant'', content = ''a2''\<rparr>,
          \<lparr>role = ''user'', content = ''q3''\<rparr>, \<lparr>role = ''assistant'', content = ''a3''\<rparr>,
          \<lparr>role = ''user'', content = ''q4''\<rparr>]" example_env "''http://b''" "''q4''" 5]
  by (simp add: fst_post_query post_query_payload_def)

text \<open>
  C2. For every call of \<^verbatim>\<open>_post_query\<close> with an empty history, the \<^verbatim>\<open>history\<close>
  field of the request payload is \<^verbatim>\<open>None\<close> (JSON null), not an empty list.
\<close>

theorem post_query_empty_history_null:
  "\<exists>pl. fst (post_query e u query_text k []) = POST (u @ ''/query'') pl 120 \<and>
        p_history pl = None \<and> p_history pl \<noteq> Some []"
  by (simp add: fst_post_query post_query_payload_def)


section \<open>The health check\<close>

text \<open>
  C4, as the specification states it: on a non-success HTTP status \<^verbatim>\<open>_healthcheck\<close>
  returns status \<^verbatim>\<open>error\<close> with detail \<^verbatim>\<open>HTTP <code>\<close>. It does not for every status
  outside 2xx: \<^verbatim>\<open>resp.ok\<close> is false for 4xx and 5xx only, so a response with status
  300 is taken as a success and its decoded body is returned as it is.
\<close>

theorem healthcheck_non_2xx_counterexample:
  "requests_get
     (example_env\<lparr>requests_get :=
        (\<lambda>u. Inr \<lparr>status_code = 300, reason = ''Multiple Choices'', resp_url = u,
                   body_json = Inr \<lparr>status = Some ''ok'', detail = None\<rparr>\<rparr>)\<rparr>)
     (''http://b'' @ ''/health'')
     = Inr \<lparr>status_code = 300, reason = ''Multiple Choices'', resp_url = ''http://b/health'',
            body_json = Inr \<lparr>status = Some ''ok'', detail = None\<rparr>\<rparr> \<and>
   \<not> (200 \<le> (300 :: int) \<and> (300 :: int) < 300) \<and>
   healthcheck
     (example_env\<lparr>requests_get :=
        (\<lambda>u. Inr \<lparr>status_code = 300, reason = ''Multiple Choices'', resp_url = u,
                   body_json = Inr \<lparr>status = Some ''ok'', detail = None\<rparr>\<rparr>)\<rparr>)
     ''http://b''
     = Inr \<lparr>status = Some ''ok'', detail = None\<rparr> \<and>
   healthcheck
     (example_env\<lparr>requests_get :=
        (\<lambda>u. Inr \<lparr>status_code = 300, reason = ''Multiple Choices'', resp_url = u,
                   body_json = Inr \<lparr>status = Some ''ok'', detail = None\<rparr>\<rparr>)\<rparr>)
     ''http://b''
     \<noteq> Inr \<lparr>status = Some ''error'', detail = Some ''HTTP 300''\<rparr>"
  by (simp add: example_env_def healthcheck_def healthcheck_try_def ok_def raise_for_status_def)

text \<open>
  C4, amended. \<^verbatim>\<open>_healthcheck\<close> is total: whatever the backend does, it returns a
  health status and raises nothing. On a 4xx or 5xx status the result is status
  \<^verbatim>\<open>error\<close> with detail \<^verbatim>\<open>HTTP <code>\<close>. When the call raises (network failure,
  timeout) the result is status \<^verbatim>\<open>error\<close> with the text of the exception as detail.
  A response with any other status is taken as a success: its decoded body is returned
  as it is, and when the body does not decode the result is status \<^verbatim>\<open>error\<close> with the
  text of the decoding exception as detail.
\<close>

theorem healthcheck_total:
  "(\<exists>h. healthcheck e u = Inr h) \<and>
   (\<forall>resp. requests_get e (u @ ''/health'') = Inr resp \<and>
       400 \<le> status_code resp \<and> status_code resp < 600 \<longrightarrow>
      healthcheck e u =
        Inr \<lparr>status = Some ''error'',
             detail = Some (''HTTP '' @ str_int (status_code resp))\<rparr>) \<and>
   (\<forall>x. requests_get e (u @ ''/health'') = Inl x \<longrightarrow>
      healthcheck e u = Inr \<lparr>status = Some ''error'', detail = Some (str_exn x)\<rparr>) \<and>
   (\<forall>resp x. requests_get e (u @ ''/health'') = Inr resp \<and>
       \<not> (400 \<le> status_code resp \<and> status_code resp < 600) \<and> body_json resp = Inl x \<longrightarrow>
      healthcheck e u = Inr \<lparr>status = Some ''error'', detail = Some (str_exn x)\<rparr>) \<and>
   (\<forall>resp h. requests_get e (u @ ''/health'') = Inr resp \<and>
       \<not> (400 \<le> status_code resp \<and> status_code resp < 600) \<and> body_json resp = Inr h \<longrightarrow>
      healthcheck e u = Inr h)"
  by (auto simp: healthcheck_def healthcheck_try_def ok_iff split: sum.splits)

theorem healthcheck_total_witness:
  "healthcheck
     (example_env\<lparr>requests_get := (\<lambda>u. Inr \<lparr>status_code = 503, reason = ''Service Unavailable'',
                                             resp_url = u,
                                             body_json = Inr \<lparr>status = Some ''ok'', detail = None\<rparr>\<rparr>)\<rparr>)
     ''http://b''
     = Inr \<lparr>status = Some ''error'', detail = Some ''HTTP 503''\<rparr> \<and>
   healthcheck
     (example_env\<lparr>requests_get := (\<lambda>u. Inl (Timeout ''Read timed out. (read timeout=5)''))\<rparr>)
     ''http://b''
     = Inr \<lparr>status = Some ''error'', detail = Some ''Read timed out. (read timeout=5)''\<rparr> \<and>
   healthcheck
     (example_env\<lparr>requests_get :=
        (\<lambda>u. Inr \<lparr>status_code = 200, reason = ''OK'', resp_url = u,
                   body_json = Inl (JSONDecodeError ''Expecting value: line 1 column 1 (char 0)'')\<rparr>)\<rparr>)
     ''http://b''
     = Inr \<lparr>status = Some ''error'', detail = Some ''Expecting value: line 1 column 1 (char 0)''\<rparr> \<and>
   healthcheck example_env ''http://b'' = Inr \<lparr>status = Some ''ok'', detail = None\<rparr>"
  using
    healthcheck_total
      [of "example_env\<lparr>requests_get := (\<lambda>u. Inr \<lparr>status_code = 503,
              reason = ''Service Unavailable'', resp_url = u,
              body_json = Inr \<lparr>status = Some ''ok'', detail = None\<rparr>\<rparr>)\<rparr>" "''http://b''"]
    healthcheck_total
      [of "example_env\<lparr>requests_get := (\<lambda>u. Inl (Timeout ''Read timed out. (read timeout=5)''))\<rparr>"
          "''http://b''"]
    healthcheck_total
      [of "example_env\<lparr>requests_get :=
             (\<lambda>u. Inr \<lparr>status_code = 200, reason = ''OK'', resp_url = u,
                body_json = Inl (JSONDecodeError ''Expecting value: line 1 column 1 (char 0)'')\<rparr>)\<rparr>"
          "''http://b''"]
    healthcheck_total [of example_env "''http://b''"]
  by (simp add: example_env_def str_int_def digits.simps)

section \<open>Failures of the query call\<close>

text \<open>
  C7, as the specification states it: \<^verbatim>\<open>_post_query\<close> raises whenever the status of
  the response is not 2xx. It does not: a response with status 300 and a JSON body is
  returned as a normal value, since \<^verbatim>\<open>raise_for_status\<close> raises for 4xx and 5xx only.
\<close>

theorem post_query_non_2xx_counterexample:
  "requests_post
     (example_env\<lparr>requests_post :=
        (\<lambda>u pl. Inr \<lparr>status_code = 300, reason = ''Multiple Choices'', resp_url = u,
                      body_json = Inr example_response\<rparr>)\<rparr>)
     (''http://b'' @ ''/query'') (post_query_payload ''q'' 5 [])
     = Inr \<lparr>status_code = 300, reason = ''Multiple Choices'', resp_url = ''http://b/query'',
            body_json = Inr example_response\<rparr> \<and>
   \<not> (200 \<le> (300 :: int) \<and> (300 :: int) < 300) \<and>
   snd (post_query
          (example_env\<lparr>requests_post :=
             (\<lambda>u pl. Inr \<lparr>status_code = 300, reason = ''Multiple Choices'', resp_url = u,
                           body_json = Inr example_response\<rparr>)\<rparr>)
          ''http://b'' ''q'' 5 [])
     = Inr example_response"
  by (simp add: post_query_def raise_for_status_def)

text \<open>
  C7, amended. \<^verbatim>\<open>_post_query\<close> raises whenever the call itself raises (timeout,
  network failure), with that very exception, and whenever the status of the response is
  4xx or 5xx, with an \<^verbatim>\<open>HTTPError\<close>; it never turns such a failure into a normal
  return value. For a response with any other status it returns the decoded body, or
  raises the decoding exception when the body is not JSON. So a value is returned exactly
  for a response whose status is outside 400..599 and whose body decodes, and the value
  is that body.
\<close>

theorem post_query_propagates:
  "(\<forall>x. requests_post e (u @ ''/query'') (post_query_payload query_text k hist) = Inl x \<longrightarrow>
      snd (post_query e u query_text k hist) = Inl x) \<and>
   (\<forall>resp. requests_post e (u @ ''/query'') (post_query_payload query_text k hist) = Inr resp \<and>
       400 \<le> status_code resp \<and> status_code resp < 600 \<longrightarrow>
      (\<exists>m. snd (post_query e u query_text k hist) = Inl (HTTPError m))) \<and>
   (\<forall>resp. requests_post e (u @ ''/query'') (post_query_payload query_text k hist) = Inr resp \<and>
       \<not> (400 \<le> status_code resp \<and> status_code resp < 600) \<longrightarrow>
      snd (post_query e u query_text k hist) = body_json resp) \<and>
   (\<forall>body. snd (post_query e u query_text k hist) = Inr body \<longrightarrow>
      (\<exists>resp. requests_post e (u @ ''/query'') (post_query_payload query_text k hist) = Inr resp \<and>
         \<not> (400 \<le> status_code resp \<and> status_code resp < 600) \<and> body_json resp = Inr body))"
  by (auto simp: post_query_def raise_for_status_def Let_def split: sum.splits if_splits)

theorem post_query_propagates_witness:
  "snd (post_query
          (example_env\<lparr>requests_post := (\<lambda>u pl. Inl (Timeout ''Read timed out. (read timeout=120)''))\<rparr>)
          ''http://b'' ''q'' 5 [])
     = Inl (Timeout ''Read timed out. (read timeout=120)'') \<and>
   (\<exists>m. snd (post_query
               (example_env\<lparr>requests_post :=
                  (\<lambda>u pl. Inr \<lparr>status_code = 503, reason = ''Service Unavailable'', resp_url = u,
                                body_json = Inr example_response\<rparr>)\<rparr>)
               ''http://b'' ''q'' 5 [])
          = Inl (HTTPError m)) \<and>
   snd (post_query
          (example_env\<lparr>requests_post :=
             (\<lambda>u pl. Inr \<lparr>status_code = 300, reason = ''Multiple Choices'', resp_url = u,
                           body_json = Inl (JSONDecodeError ''Expecting value: line 1 column 1 (char 0)'')\<rparr>)\<rparr>)
          ''http://b'' ''q'' 5 [])
     = Inl (JSONDecodeError ''Expecting value: line 1 column 1 (char 0)'') \<and>
   snd (post_query example_env ''http://b'' ''q'' 5 []) = Inr example_response \<and>
   (\<exists>resp. requests_post example_env (''http://b'' @ ''/query'') (post_query_payload ''q'' 5 [])
             = Inr resp \<and>
           \<not> (400 \<le> status_code resp \<and> status_code resp < 600) \<and>
           body_json resp = Inr example_response)"
  using
    post_query_propagates
      [of "example_env\<lparr>requests_post :=
             (\<lambda>u pl. Inl (Timeout ''Read timed out. (read timeout=120)''))\<rparr>"
          "''http://b''" "''q''" 5 "[]"]
    post_query_propagates
      [of "example_env\<lparr>requests_post :=
             (\<lambda>u pl. Inr \<lparr>status_code = 503, reason = ''Service Unavailable'', resp_url = u,
                           body_json = Inr example_response\<rparr>)\<rparr>"
          "''http://b''" "''q''" 5 "[]"]
    post_query_propagates
      [of "example_env\<lparr>requests_post :=
             (\<lambda>u pl. Inr \<lparr>status_code = 300, reason = ''Multiple Choices'', resp_url = u,
                           body_json = Inl (JSONDecodeError ''Expecting value: line 1 column 1 (char 0)'')\<rparr>)\<rparr>"
          "''http://b''" "''q''" 5 "[]"]
    post_query_propagates [of example_env "''http://b''" "''q''" 5 "[]"]
  by (simp add: example_env_def)

section \<open>One exchange\<close>

text \<open>
  C3. When the backend call of an exchange raises an exception, \<^verbatim>\<open>_send_and_render\<close>
  shows the inline error \<^verbatim>\<open>Request failed: <message>\<close> in the placeholder and appends
  no assistant message: the history grows by exactly one message, the user's.
\<close>

theorem send_and_render_backend_failure:
  assumes "messages s = Some ms" and "top_k s = Some k"
    and "snd (post_query e (get_backend_url e s) q k (ms @ [\<lparr>role = ''user'', content = q\<rparr>]))
           = Inl x"
  shows "\<exists>s'. send_and_render e q s = Inr s' \<and>
           messages s' = Some (ms @ [\<lparr>role = ''user'', content = q\<rparr>]) \<and>
           length (history_of s') = length (history_of s) + 1 \<and>
           last (ui s') = PlaceholderError (''Request failed: '' @ str_exn x) \<and>
           filter is_placeholder (ui s')
             = filter is_placeholder (ui s) @ [PlaceholderError (''Request failed: '' @ str_exn x)]"
  using send_and_render_failed [OF assms] assms(1) by (simp add: history_of_def)

theorem send_and_render_backend_failure_witness:
  "messages (new_session\<lparr>top_k := Some 5, messages := Some []\<rparr>) = Some [] \<and>
   top_k (new_session\<lparr>top_k := Some 5, messages := Some []\<rparr>) = Some 5 \<and>
   snd (post_query
          (example_env\<lparr>requests_post := (\<lambda>u pl. Inl (Timeout ''Read timed out. (read timeout=120)''))\<rparr>)
          (get_backend_url
             (example_env\<lparr>requests_post := (\<lambda>u pl. Inl (Timeout ''Read timed out. (read timeout=120)''))\<rparr>)
             (new_session\<lparr>top_k := Some 5, messages := Some []\<rparr>))
          ''hi'' 5 ([] @ [\<lparr>role = ''user'', content = ''hi''\<rparr>]))
     = Inl (Timeout ''Read timed out. (read timeout=120)'') \<and>
   (\<exists>s'. send_and_render
            (example_env\<lparr>requests_post := (\<lambda>u pl. Inl (Timeout ''Read timed out. (read timeout=120)''))\<rparr>)
            ''hi'' (new_session\<lparr>top_k := Some 5, messages := Some []\<rparr>) = Inr s' \<and>
          messages s' = Some [\<lparr>role = ''user'', content = ''hi''\<rparr>] \<and>
          last (ui s') = PlaceholderError ''Request failed: Read timed out. (read timeout=120)'')"
  using send_and_render_backend_failure
    [of "new_session\<lparr>top_k := Some 5, messages := Some []\<rparr>" "[]" 5
        "example_env\<lparr>requests_post := (\<lambda>u pl. Inl (Timeout ''Read timed out. (read timeout=120)''))\<rparr>"
        "''hi''" "Timeout ''Read timed out. (read timeout=120)''"]
  by (auto simp add: new_session_def example_env_def post_query_def)

text \<open>
  C6. When the query succeeds and the response has no \<^verbatim>\<open>answer\<close>, or an empty one,
  the text shown in the placeholder is \<^verbatim>\<open>No answer returned.\<close> and the assistant
  message appended to the history has that same text as its content.
\<close>

theorem send_and_render_answer_fallback:
  assumes "messages s = Some ms" and "top_k s = Some k"
    and "snd (post_query e (get_backend_url e s) q k (ms @ [\<lparr>role = ''user'', content = q\<rparr>]))
           = Inr resp"
    and "\<not> truthy (answer resp)"
  shows "\<exists>s'. send_and_render e q s = Inr s' \<and>
           messages s' = Some (ms @ [\<lparr>role = ''user'', content = q\<rparr>,
                                     \<lparr>role = ''assistant'', content = ''No answer returned.''\<rparr>]) \<and>
           filter is_placeholder (ui s')
             = filter is_placeholder (ui s) @ [PlaceholderMarkdown ''No answer returned.'']"
  using send_and_render_answered [OF assms(1,2,3)] py_or_fallback [OF assms(4)] by auto

theorem send_and_render_answer_fallback_witness:
  "messages (new_session\<lparr>top_k := Some 5, messages := Some []\<rparr>) = Some [] \<and>
   top_k (new_session\<lparr>top_k := Some 5, messages := Some []\<rparr>) = Some 5 \<and>
   snd (post_query
          (example_env\<lparr>requests_post :=
             (\<lambda>u pl. Inr \<lparr>status_code = 200, reason = ''OK'', resp_url = u,
                           body_json = Inr \<lparr>answer = None, citations = None, follow_ups = None\<rparr>\<rparr>)\<rparr>)
          (get_backend_url
             (example_env\<lparr>requests_post :=
                (\<lambda>u pl. Inr \<lparr>status_code = 200, reason = ''OK'', resp_url = u,
                              body_json = Inr \<lparr>answer = None, citations = None, follow_ups = None\<rparr>\<rparr>)\<rparr>)
             (new_session\<lparr>top_k := Some 5, messages := Some []\<rparr>))
          ''hi'' 5 ([] @ [\<lparr>role = ''user'', content = ''hi''\<rparr>]))
     = Inr \<lparr>answer = None, citations = None, follow_ups = None\<rparr> \<and>
   \<not> truthy (answer \<lparr>answer = None, citations = None, follow_ups = None\<rparr>) \<and>
   (\<exists>s'. send_and_render
            (example_env\<lparr>requests_post :=
               (\<lambda>u pl. Inr \<lparr>status_code = 200, reason = ''OK'', resp_url = u,
                             body_json = Inr \<lparr>answer = None, citations = None, follow_ups = None\<rparr>\<rparr>)\<rparr>)
            ''hi'' (new_session\<lparr>top_k := Some 5, messages := Some []\<rparr>) = Inr s' \<and>
          messages s' = Some [\<lparr>role = ''user'', content = ''hi''\<rparr>,
                              \<lparr>role = ''assistant'', content = ''No answer returned.''\<rparr>] \<and>
          filter is_placeholder (ui s') = [PlaceholderMarkdown ''No answer returned.''])"
  using send_and_render_answer_fallback
    [of "new_session\<lparr>top_k := Some 5, messages := Some []\<rparr>" "[]" 5
        "example_env\<lparr>requests_post :=
           (\<lambda>u pl. Inr \<lparr>status_code = 200, reason = ''OK'', resp_url = u,
                         body_json = Inr \<lparr>answer = None, citations = None, follow_ups = None\<rparr>\<rparr>)\<rparr>"
        "''hi''" "\<lparr>answer = None, citations = None, follow_ups = None\<rparr>"]
  by (auto simp add: new_session_def example_env_def post_query_def raise_for_status_def)

section \<open>The render pass\<close>

text \<open>
  C8, as the specification states it: the \<^verbatim>\<open>top_k\<close> of every query request lies in
  the range 1 to 20, whatever the session state held before. The script does not clamp
  the value: it hands the stored value to the slider and sends what the slider returns.
  With 1000 stored in the session state and a slider that the user leaves alone, which
  returns the value it was given, the request carries 1000.
\<close>

theorem query_top_k_counterexample:
  "st_slider example_env 1 20 1000 = 1000 \<and>
   sent (fst (render_pass example_env (new_session\<lparr>top_k := Some 1000\<rparr>)))
     = [GET ''https://rag-pipeline-1gmu.onrender.com/health'' 5,
        POST ''https://rag-pipeline-1gmu.onrender.com/query''
          \<lparr>p_query = ''What is product X?'', p_top_k = 1000,
           p_history = Some [\<lparr>role = ''user'', content = ''What is product X?''\<rparr>]\<rparr> 120] \<and>
   \<not> (1 \<le> (1000 :: int) \<and> (1000 :: int) \<le> 20)"
  by (simp add: pass_defs)

text \<open>
  C8, amended. The \<^verbatim>\<open>top_k\<close> of every query request is the value the slider returned
  in that pass, and the slider is given the stored value, or 5 when the session has none
  yet. In a session that starts without the key, every \<^verbatim>\<open>top_k\<close> sent lies in the
  range 1 to 20 as long as the slider returns either the value it is given or a position
  within its bounds 1 and 20. A stored value outside the range is not clamped.
\<close>

theorem query_top_k_from_slider:
  "(\<forall>s' x u pl t. render_pass e s = (s', x) \<and> POST u pl t \<in> set (sent s') \<longrightarrow>
      p_top_k pl = st_slider e 1 20 (case top_k s of None \<Rightarrow> 5 | Some k \<Rightarrow> k)) \<and>
   ((\<forall>e\<in>set es. \<forall>v. st_slider e 1 20 v = v \<or>
                       (1 \<le> st_slider e 1 20 v \<and> st_slider e 1 20 v \<le> 20)) \<longrightarrow>
      (\<forall>u pl t. POST u pl t \<in> set (session_requests es new_session) \<longrightarrow>
         1 \<le> p_top_k pl \<and> p_top_k pl \<le> 20))"
proof (intro conjI impI allI)
  fix s' x u pl t
  assume "render_pass e s = (s', x) \<and> POST u pl t \<in> set (sent s')"
  then show "p_top_k pl = st_slider e 1 20 (case top_k s of None \<Rightarrow> 5 | Some k \<Rightarrow> k)"
    using render_pass_sent by blast
next
  fix u pl t
  assume h: "\<forall>e\<in>set es. \<forall>v. st_slider e 1 20 v = v \<or>
                        (1 \<le> st_slider e 1 20 v \<and> st_slider e 1 20 v \<le> 20)"
    and p: "POST u pl t \<in> set (session_requests es new_session)"
  have "case top_k new_session of None \<Rightarrow> True | Some k \<Rightarrow> 1 \<le> k \<and> k \<le> 20"
    by (simp add: new_session_def)
  from session_requests_top_k [OF h this] p
  show "1 \<le> p_top_k pl" and "p_top_k pl \<le> 20" by blast+
qed

theorem query_top_k_from_slider_witness:
  "st_slider example_env 1 20 5 = 5 \<and>
   st_slider (example_env\<lparr>st_slider := (\<lambda>lo hi v. 7)\<rparr>) 1 20 5 = 7 \<and>
   sent (fst (render_pass example_env new_session))
     = [GET ''https://rag-pipeline-1gmu.onrender.com/health'' 5,
        POST ''https://rag-pipeline-1gmu.onrender.com/query''
          \<lparr>p_query = ''What is product X?'', p_top_k = 5,
           p_history = Some [\<lparr>role = ''user'', content = ''What is product X?''\<rparr>]\<rparr> 120] \<and>
   (\<exists>u h. POST u \<lparr>p_query = ''What is product X?'', p_top_k = 7, p_history = h\<rparr> 120
            \<in> set (session_requests [example_env, example_env\<lparr>st_slider := (\<lambda>lo hi v. 7)\<rparr>]
                      new_session))"
  using query_top_k_from_slider
    [where e = example_env and s = new_session
       and es = "[example_env, example_env\<lparr>st_slider := (\<lambda>lo hi v. 7)\<rparr>]"]
  by (simp add: pass_defs)

text \<open>
  C9. When a pass finds both a pending follow-up and freshly typed chat input, the typed
  input is the one submitted and the pending text is popped and dropped: the pass does
  exactly what it does without a pending follow-up, the user message and the query carry
  the typed text, and afterwards \<^verbatim>\<open>pending_input\<close> is absent unless a button of this
  very pass sets it anew.
\<close>

theorem typed_input_discards_pending:
  assumes "st_chat_input e = Some t" and "t \<noteq> []"
  shows "render_pass e (s\<lparr>pending_input := Some p\<rparr>) = render_pass e (s\<lparr>pending_input := None\<rparr>) \<and>
         (\<exists>s' rest u k.
            render_pass e (s\<lparr>pending_input := Some p\<rparr>) = (s', None) \<and>
            messages s' = Some (history_of s @ \<lparr>role = ''user'', content = t\<rparr> # rest) \<and>
            sent s' = [GET (u @ ''/health'') 5,
                       POST (u @ ''/query'')
                         (post_query_payload t k (history_of s @ [\<lparr>role = ''user'', content = t\<rparr>]))
                         120] \<and>
            ((\<forall>i. \<not> st_button e i) \<longrightarrow> pending_input s' = None))"
proof -
  from render_pass_submits [OF assms, of "s\<lparr>pending_input := Some p\<rparr>"]
  have "\<exists>s' rest u k.
            render_pass e (s\<lparr>pending_input := Some p\<rparr>) = (s', None) \<and>
            messages s' = Some (history_of s @ \<lparr>role = ''user'', content = t\<rparr> # rest) \<and>
            sent s' = [GET (u @ ''/health'') 5,
                       POST (u @ ''/query'')
                         (post_query_payload t k (history_of s @ [\<lparr>role = ''user'', content = t\<rparr>]))
                         120] \<and>
            ((\<forall>i. \<not> st_button e i) \<longrightarrow> pending_input s' = None)"
    by (simp add: history_of_def)
  then show ?thesis using render_pass_pending_ignored [OF assms] by simp
qed

theorem typed_input_discards_pending_witness:
  "st_chat_input example_env = Some ''What is product X?'' \<and> ''What is product X?'' \<noteq> [] \<and>
   render_pass example_env (new_session\<lparr>pending_input := Some ''How much does X cost?''\<rparr>)
     = render_pass example_env (new_session\<lparr>pending_input := None\<rparr>) \<and>
   (\<exists>s'. render_pass example_env (new_session\<lparr>pending_input := Some ''How much does X cost?''\<rparr>)
            = (s', None) \<and>
          messages s' = Some [\<lparr>role = ''user'', content = ''What is product X?''\<rparr>,
                              \<lparr>role = ''assistant'', content = ''X is a tool.''\<rparr>] \<and>
          pending_input s' = None)"
  using typed_input_discards_pending
    [where e = example_env and t = "''What is product X?''" and s = new_session
       and p = "''How much does X cost?''"]
  by (auto simp add: pass_defs)

text \<open>
  C10. Every message appended to the session history has a non-empty content and the
  role \<^verbatim>\<open>user\<close> or \<^verbatim>\<open>assistant\<close>: a pass only appends such messages to the history
  it found, however it ends, so after any number of passes from a new session every
  message of the history is of that kind.
\<close>

theorem history_messages_well_formed:
  "(\<forall>e s s' x. render_pass e s = (s', x) \<longrightarrow>
      (\<exists>new. messages s' = Some (history_of s @ new) \<and>
         (\<forall>m\<in>set new. content m \<noteq> [] \<and> (role m = ''user'' \<or> role m = ''assistant'')))) \<and>
   (\<forall>m\<in>set (history_of (run es new_session)).
      content m \<noteq> [] \<and> (role m = ''user'' \<or> role m = ''assistant''))"
proof -
  have "\<forall>m\<in>set (history_of new_session).
          content m \<noteq> [] \<and> (role m = ''user'' \<or> role m = ''assistant'')"
    by (simp add: history_of_def new_session_def)
  from run_messages [OF this] show ?thesis
    using render_pass_messages by blast
qed

theorem history_messages_well_formed_witness:
  "snd (render_pass example_env new_session) = None \<and>
   history_of (run [example_env, example_env\<lparr>st_chat_input := None\<rparr>] new_session)
     = [\<lparr>role = ''user'', content = ''What is product X?''\<rparr>,
        \<lparr>role = ''assistant'', content = ''X is a tool.''\<rparr>]"
  using history_messages_well_formed [of "[example_env, example_env\<lparr>st_chat_input := None\<rparr>]"]
  by (simp add: pass_defs)

section \<open>Follow-up buttons\<close>



end
